theory Spec2Isabelle
  imports Main
begin

section \<open>Errors thrown by the core\<close>

text \<open>
  The exceptions the authorization chain and the context lookup throw:
  \<^item> \<open>ProblemDetailsException type title status\<close> is
    \<^verbatim>\<open>new ProblemDetailsException(new ProblemDetails(type, title, status))\<close>;
  \<^item> \<open>ForbiddenError action\<close> is what \<^verbatim>\<open>ForbiddenError.from(abilities).throwUnlessCan(action)\<close>
    throws when the ability does not allow \<open>action\<close>;
  \<^item> \<open>Error message\<close> is \<^verbatim>\<open>new Error(message)\<close>.
\<close>

datatype Exception =
    ProblemDetailsException string string nat
  | ForbiddenError string
  | Error string

section \<open>Identity resolver (identity.ts)\<close>

text \<open>
  \<^verbatim>\<open>interface IdentitySubject {}\<close> is opaque to the core. The inbound request is read
  through its headers only; the connection's address is what the address library looks at.
\<close>

typedecl IdentitySubject

record IncomingMessage =
  headers :: "string \<rightharpoonup> string"
  remoteAddress :: "string option"

text \<open>
  \<^verbatim>\<open>export async function getSubject(req): Promise<IdentitySubject | undefined> { return undefined; }\<close>
  The awaited result is a value (\<open>Inr\<close>) or a rejection (\<open>Inl\<close>); \<open>undefined\<close> is \<open>None\<close>.
\<close>

definition getSubject :: "IncomingMessage \<Rightarrow> Exception + IdentitySubject option" where
  "getSubject req = Inr None"

section \<open>Capability sets (the ability library, as the policies use it)\<close>

text \<open>
  \<^verbatim>\<open>defineAbility((can, cannot) => { ... })\<close> collects the rules declared by its callback, in
  declaration order. A rule is \<open>can(action, subject)\<close> or \<open>cannot(action, subject)\<close>.
  The library is an external collaborator; the query below follows its documented lookup:
  the rule declared last among those that apply decides, the action \<open>manage\<close> stands for
  any action, the subject \<open>all\<close> for any subject, and a query without a subject (as in
  \<^verbatim>\<open>throwUnlessCan(action)\<close>) is a query on the subject type \<open>all\<close>.
\<close>

datatype RawRule = Can string string | Cannot string string

type_synonym AnyMongoAbility = "RawRule list"

definition defineAbility :: "RawRule list \<Rightarrow> AnyMongoAbility" where
  "defineAbility rules = rules"

fun inverted :: "RawRule \<Rightarrow> bool" where
  "inverted (Can a s) = False"
| "inverted (Cannot a s) = True"

fun ruleAction :: "RawRule \<Rightarrow> string" where
  "ruleAction (Can a s) = a"
| "ruleAction (Cannot a s) = a"

fun ruleSubject :: "RawRule \<Rightarrow> string" where
  "ruleSubject (Can a s) = s"
| "ruleSubject (Cannot a s) = s"

definition ruleApplies :: "string \<Rightarrow> string \<Rightarrow> RawRule \<Rightarrow> bool" where
  "ruleApplies action subjectType r =
     ((ruleAction r = action \<or> ruleAction r = ''manage'') \<and>
      (ruleSubject r = subjectType \<or> ruleSubject r = ''all''))"

definition relevantRuleFor :: "AnyMongoAbility \<Rightarrow> string \<Rightarrow> string \<Rightarrow> RawRule option" where
  "relevantRuleFor ability action subjectType =
     List.find (ruleApplies action subjectType) (rev ability)"

definition can :: "AnyMongoAbility \<Rightarrow> string \<Rightarrow> bool" where
  "can ability action =
     (case relevantRuleFor ability action ''all'' of
        None \<Rightarrow> False
      | Some r \<Rightarrow> \<not> inverted r)"

section \<open>Policies (policies.ts)\<close>

text \<open>
  \<open>'ua\<close> is the structured result of the client-agent parser (\<^verbatim>\<open>IResult\<close>); the resource is
  \<^verbatim>\<open>any\<close> and the middleware passes \<^verbatim>\<open>null\<close>, here \<open>None\<close>.
\<close>

typedecl Resource

record 'ua Environment =
  ip :: "string option"
  userAgent :: "string option"
  userAgentData :: 'ua

record 'ua Policy =
  name :: string
  abilities :: AnyMongoAbility
  evaluate :: "IdentitySubject option \<Rightarrow> Resource option \<Rightarrow> 'ua Environment \<Rightarrow> bool"

definition policies :: "'ua Policy list" where
  "policies =
     [\<lparr> name = ''Guest'',
        abilities = defineAbility [Can ''manage'' ''all''],
        evaluate = (\<lambda>subject resource environment. True) \<rparr>]"

section \<open>Authorization middleware\<close>

text \<open>
  The two libraries the environment is extracted with are parameters: \<open>getClientIp\<close> is
  \<^verbatim>\<open>getClientIp(req): string | null\<close> and \<open>UAParser\<close> is
  \<^verbatim>\<open>new UAParser(userAgent).getResult()\<close> on the header, which may be absent.
\<close>

record 'ua Externals =
  getClientIp :: "IncomingMessage \<Rightarrow> string option"
  UAParser :: "string option \<Rightarrow> 'ua"

definition getIp :: "'ua Externals \<Rightarrow> IncomingMessage \<Rightarrow> string option" where
  "getIp ext req = getClientIp ext req"

definition getEnv :: "'ua Externals \<Rightarrow> IncomingMessage \<Rightarrow> 'ua Environment" where
  "getEnv ext req =
     (let userAgent = headers req ''user-agent'';
          userAgentData = UAParser ext userAgent;
          ip = getIp ext req
      in \<lparr> ip = ip, userAgent = userAgent, userAgentData = userAgentData \<rparr>)"

definition applicablePolicies ::
  "'ua Policy list \<Rightarrow> IdentitySubject option \<Rightarrow> 'ua Environment \<Rightarrow> 'ua Policy list" where
  "applicablePolicies ps subject env = filter (\<lambda>it. evaluate it subject None env) ps"

text \<open>
  The loop \<^verbatim>\<open>for (const { abilities } of applicablePolicies) ForbiddenError.from(abilities).throwUnlessCan(action)\<close>.
  The second component lists, in order, the names of the policies whose capability set was
  queried: the loop stops at the first one that throws.
\<close>

fun throwUnlessCanEach :: "'ua Policy list \<Rightarrow> string \<Rightarrow> (Exception + unit) \<times> string list" where
  "throwUnlessCanEach [] action = (Inr (), [])"
| "throwUnlessCanEach (p # ps) action =
     (if can (abilities p) action
      then (case throwUnlessCanEach ps action of (r, queried) \<Rightarrow> (r, name p # queried))
      else (Inl (ForbiddenError action), [name p]))"

text \<open>
  \<open>authorizeWith ext ps action req\<close> is the middleware returned by \<^verbatim>\<open>authorize(action)\<close>,
  run on the request of the context, with the registered policy list \<open>ps\<close>. \<open>Inr ()\<close> means
  that no exception was thrown and control reaches \<^verbatim>\<open>await next()\<close>.
\<close>

definition authorizeWith ::
  "'ua Externals \<Rightarrow> 'ua Policy list \<Rightarrow> string \<Rightarrow> IncomingMessage \<Rightarrow> (Exception + unit) \<times> string list" where
  "authorizeWith ext ps action req =
     (let env = getEnv ext req in
      case getSubject req of
        Inl e \<Rightarrow> (Inl e, [])
      | Inr subject \<Rightarrow>
          (let applicable = applicablePolicies ps subject env in
           if length applicable < 1
           then (Inl (ProblemDetailsException ''forbidden'' ''no sufficient permissions'' 403), [])
           else throwUnlessCanEach applicable action))"

definition authorize ::
  "'ua Externals \<Rightarrow> string \<Rightarrow> IncomingMessage \<Rightarrow> (Exception + unit) \<times> string list" where
  "authorize ext action req = authorizeWith ext policies action req"

section \<open>Execution context store (context.ts)\<close>

text \<open>
  \<^verbatim>\<open>asyncLocalStorage\<close> holds the store bound to the running asynchronous execution, if any:
  \<open>None\<close> outside every \<^verbatim>\<open>run\<close>, and \<open>Some store\<close> throughout the callback of
  \<^verbatim>\<open>asyncLocalStorage.run(store, callback)\<close>, an inner \<^verbatim>\<open>run\<close> shadowing an outer one.
\<close>

record ('em, 'bus) AsyncContext =
  em :: 'em
  bus :: 'bus

type_synonym 'c AsyncLocalStorage = "'c option"

definition getStore :: "'c AsyncLocalStorage \<Rightarrow> 'c option" where
  "getStore als = als"

definition run :: "'c \<Rightarrow> ('c AsyncLocalStorage \<Rightarrow> 'r) \<Rightarrow> 'c AsyncLocalStorage \<Rightarrow> 'r" where
  "run store callback als = callback (Some store)"

definition getContext ::
  "('em, 'bus) AsyncContext AsyncLocalStorage \<Rightarrow> Exception + ('em, 'bus) AsyncContext" where
  "getContext als =
     (case getStore als of
        None \<Rightarrow> Inl (Error ''Context not found'')
      | Some store \<Rightarrow> Inr store)"

section \<open>Message bus (context.ts)\<close>

text \<open>
  Event names are \<^verbatim>\<open>string | symbol\<close>. A deferred value (the promise \<^verbatim>\<open>send\<close> returns) is
  pending or fulfilled; \<^verbatim>\<open>send\<close> keeps only the promise's \<^verbatim>\<open>resolve\<close> function, so no
  promise of the bus is ever rejected. What escapes a call as an exception is either what
  a subscribed handler threw, or the emitter's own error for an \<^verbatim>\<open>'error'\<close> event that has
  no listener.
\<close>

datatype EventName = Str string | Sym nat

datatype 'v PromiseState = Pending | Fulfilled 'v


text \<open>
  A function registered with the emitter by \<^verbatim>\<open>on\<close> or \<^verbatim>\<open>once\<close>: the wrapper closure around
  the subscriber's \<open>handler\<close>. \<open>lid\<close> is the closure's identity (what
  \<^verbatim>\<open>removeListener\<close> compares), \<open>isOnce\<close> tells how it was registered. A handler called
  with the emitted arguments returns a value (\<open>Inr\<close>) or throws (\<open>Inl\<close>); it is a
  function of its arguments, so a handler that itself calls the bus while it runs is not
  described here.
\<close>

record ('a, 'v, 'x) Listener =
  lid :: nat
  isOnce :: bool
  handler :: "'a list \<Rightarrow> 'x + 'v"

text \<open>
  The bus and the promises its \<^verbatim>\<open>send\<close> calls have created. \<open>emitter\<close> is the listener table
  of \<^verbatim>\<open>#emitter\<close>, in registration order; \<open>pendingEventsRegistry\<close> maps an event name to its
  resolvers, each the index of the promise it resolves.
\<close>

record ('a, 'v, 'x) MessageBus =
  emitter :: "EventName \<Rightarrow> ('a, 'v, 'x) Listener list"
  nextListener :: nat
  pendingEventsRegistry :: "EventName \<rightharpoonup> nat list"
  promises :: "'v PromiseState list"


text \<open>\<^verbatim>\<open>resolve(result)\<close>: a promise settles at most once, later calls are ignored.\<close>

definition resolve :: "'v \<Rightarrow> nat \<Rightarrow> 'v PromiseState list \<Rightarrow> 'v PromiseState list" where
  "resolve result r ps =
     (if r < length ps \<and> ps ! r = Pending then ps[r := Fulfilled result] else ps)"

text \<open>\<^verbatim>\<open>this.#pendingEventsRegistry.get(eventName) ?? []\<close>\<close>

definition resolversOf :: "('a, 'v, 'x) MessageBus \<Rightarrow> EventName \<Rightarrow> nat list" where
  "resolversOf s eventName =
     (case pendingEventsRegistry s eventName of None \<Rightarrow> [] | Some resolvers \<Rightarrow> resolvers)"


text \<open>
  \<^verbatim>\<open>this.#emitter.on(eventName, wrapper)\<close> and \<^verbatim>\<open>this.#emitter.once(eventName, wrapper)\<close>:
  the wrapper is appended to the listeners of the event. The events the emitter emits
  about its own listener table (\<^verbatim>\<open>newListener\<close>, \<^verbatim>\<open>removeListener\<close>) are left out.
\<close>

definition addListener ::
  "bool \<Rightarrow> EventName \<Rightarrow> ('a list \<Rightarrow> 'x + 'v) \<Rightarrow> ('a, 'v, 'x) MessageBus \<Rightarrow> ('a, 'v, 'x) MessageBus" where
  "addListener o1 eventName listener s =
     s\<lparr> emitter := (emitter s)(eventName :=
            emitter s eventName @ [\<lparr> lid = nextListener s, isOnce = o1, handler = listener \<rparr>]),
        nextListener := Suc (nextListener s) \<rparr>"



definition removeListener :: "EventName \<Rightarrow> nat \<Rightarrow> ('a, 'v, 'x) MessageBus \<Rightarrow> ('a, 'v, 'x) MessageBus" where
  "removeListener eventName l s =
     s\<lparr> emitter := (emitter s)(eventName := filter (\<lambda>w. lid w \<noteq> l) (emitter s eventName)) \<rparr>"



text \<open>
  The executor of the promise in \<^verbatim>\<open>send\<close>: the new promise is pending and its \<^verbatim>\<open>resolve\<close>
  is pushed on the event's resolver list, created when absent.
\<close>

definition registerWaiter :: "EventName \<Rightarrow> ('a, 'v, 'x) MessageBus \<Rightarrow> ('a, 'v, 'x) MessageBus" where
  "registerWaiter eventName s =
     s\<lparr> promises := promises s @ [Pending],
        pendingEventsRegistry := (pendingEventsRegistry s)(eventName \<mapsto>
            resolversOf s eventName @ [length (promises s)]) \<rparr>"










section \<open>Authorization: properties\<close>

lemma can_manage_all: "can (defineAbility [Can ''manage'' ''all'']) action"
  by (simp add: can_def defineAbility_def relevantRuleFor_def ruleApplies_def)





text \<open>
  Claim C2. For every policy list and action: if no registered policy's \<open>evaluate\<close> holds of
  the subject, the null resource and the environment, the middleware throws the problem
  details exception of type \<open>forbidden\<close>, title \<open>no sufficient permissions\<close> and status 403
  (the spec's \<open>NoApplicablePolicy\<close> failure), and no capability set has been queried.
\<close>

theorem authorize_no_applicable_policy:
  assumes "getSubject req = Inr subject"
    and "\<forall>p \<in> set ps. \<not> evaluate p subject None (getEnv ext req)"
  shows "authorizeWith ext ps action req =
           (Inl (ProblemDetailsException ''forbidden'' ''no sufficient permissions'' 403), [])"
proof -
  have "applicablePolicies ps subject (getEnv ext req) = []"
    using assms(2) by (simp add: applicablePolicies_def)
  then show ?thesis using assms(1) by (simp add: authorizeWith_def Let_def)
qed

theorem authorize_no_applicable_policy_witness:
  "authorizeWith \<lparr> getClientIp = remoteAddress, UAParser = (\<lambda>ua. ()) \<rparr>
     [\<lparr> name = ''Member'', abilities = defineAbility [Can ''manage'' ''all''],
         evaluate = (\<lambda>subject resource environment. subject \<noteq> None) \<rparr>]
     ''read'' \<lparr> headers = Map.empty, remoteAddress = None \<rparr>
   = (Inl (ProblemDetailsException ''forbidden'' ''no sufficient permissions'' 403), [])
   \<and> authorizeWith \<lparr> getClientIp = remoteAddress, UAParser = (\<lambda>ua. ()) \<rparr> []
     ''read'' \<lparr> headers = Map.empty, remoteAddress = None \<rparr>
   = (Inl (ProblemDetailsException ''forbidden'' ''no sufficient permissions'' 403), [])"
proof -
  let ?ext = "\<lparr> getClientIp = remoteAddress, UAParser = (\<lambda>ua. ()) \<rparr>"
  let ?req = "\<lparr> headers = Map.empty, remoteAddress = None \<rparr>"
  have subj: "getSubject ?req = Inr None" by (simp add: getSubject_def)
  show ?thesis
    using authorize_no_applicable_policy [OF subj, of "[\<lparr> name = ''Member'', abilities = defineAbility [Can ''manage'' ''all''],
         evaluate = (\<lambda>subject resource environment. subject \<noteq> None) \<rparr>]" ?ext "''read''"]
      authorize_no_applicable_policy [OF subj, of "[]" ?ext "''read''"]
    by simp
qed

text \<open>
  Claim C9. For every inbound request the shipped identity resolver returns the empty
  result (no subject): it returns normally, and what it returns is \<open>None\<close>.
\<close>

theorem getSubject_anonymous: "getSubject req = Inr None"
  by (simp add: getSubject_def)

text \<open>
  Claim C10. With the registered default policy list (the single policy \<open>Guest\<close>, always
  applicable, whose capability set allows \<open>manage\<close> on \<open>all\<close>), the middleware reaches
  \<open>next\<close> for every action and every request, after querying the capability set of \<open>Guest\<close>
  only: neither the branch without applicable policy nor the forbidden branch is taken.
\<close>

theorem authorize_default_policies: "authorize ext action req = (Inr (), [''Guest''])"
  by (simp add: authorize_def authorizeWith_def policies_def applicablePolicies_def
      getSubject_def Let_def can_manage_all)

section \<open>Execution context store: properties\<close>

text \<open>
  Claim C3. Outside every \<open>run\<close> scope (no store is bound) \<open>getContext\<close> throws the error
  \<open>Context not found\<close>; being a function of the bound store alone it does so on every such
  call. Inside the callback of \<open>run\<close> it returns the store that \<open>run\<close> bound, whatever was
  bound outside.
\<close>

theorem getContext_scope:
  "getContext None = Inl (Error ''Context not found'') \<and> run c getContext als = Inr c"
  by (simp add: getContext_def getStore_def run_def)

section \<open>Message bus: resolving promises\<close>

lemma length_resolve [simp]: "length (resolve v r ps) = length ps"
  by (simp add: resolve_def)

lemma length_fold_resolve [simp]: "length (fold (resolve v) rs ps) = length ps"
  by (induction rs arbitrary: ps) simp_all



lemma resolversOf_removeListener [simp]:
  "resolversOf (removeListener E l s) E' = resolversOf s E'"
  by (simp add: resolversOf_def removeListener_def)

lemma promises_removeListener [simp]: "promises (removeListener E l s) = promises s"
  by (simp add: removeListener_def)

lemma registry_removeListener [simp]:
  "pendingEventsRegistry (removeListener E l s) = pendingEventsRegistry s"
  by (simp add: removeListener_def)





section \<open>Message bus: emitting and sending\<close>





lemma registerWaiter_simps [simp]:
  "promises (registerWaiter E s) = promises s @ [Pending]"
  "emitter (registerWaiter E s) = emitter s"
  "resolversOf (registerWaiter E s) E' =
     (if E' = E then resolversOf s E @ [length (promises s)] else resolversOf s E')"
  by (simp_all add: registerWaiter_def resolversOf_def)

lemma addListener_simps [simp]:
  "promises (addListener b E h s) = promises s"
  "resolversOf (addListener b E h s) E' = resolversOf s E'"
  by (simp_all add: addListener_def resolversOf_def)





section \<open>Message bus: pending waiters\<close>










section \<open>Message bus: the registry invariant holds in every reachable state\<close>











section \<open>Message bus: properties\<close>











end
